theory Spec2Isabelle
  imports Complex_Main "HOL-Library.Word" "HOL-Library.Signed_Division" "HOL-Library.AList"
begin

unbundle bit_operations_syntax

section \<open>assdumper: a shallow embedding of assdumper.go\<close>

text \<open>
  The analyzer reads an MPEG2-TS file in 188-byte packets and threads one
  \<open>AnalyzerState\<close> through \<open>analyzePacket\<close>. The embedding keeps the source's
  function and variable names. Conventions:
  \<^item> a Go \<open>byte\<close> is an \<open>8 word\<close>, so arithmetic written on bytes in the source
    (\<open>11+PES_header_data_length\<close>, \<open>7+num_languages*5\<close>) wraps modulo 256 here too;
  \<^item> Go \<open>int\<close> and \<open>int64\<close> are \<open>int\<close>: every value the program computes in them is
    assembled from at most five bytes, or is a Unix time of a four-digit year times
    100, so no 64-bit operation of the program can wrap;
  \<^item> \<open>/\<close> and \<open>%\<close> on Go integers truncate towards zero: \<open>sdiv\<close> and \<open>smod\<close>;
  \<^item> a run-time panic is a value of type \<open>panic\<close>; a pure decoder returns
    \<open>panic + 'a\<close>, a function that mutates the state returns the state it reached
    together with \<open>Some\<close> panic when it stopped there;
  \<^item> standard output and standard error are two lists carried beside the state.
\<close>

subsection \<open>Go primitives\<close>

type_synonym byte = "8 word"

datatype panic = SyncByteFailed | IndexOutOfRange | TimeParseError

text \<open>\<open>xs[i]\<close>: panics outside \<open>0 \<le> i < len(xs)\<close>.\<close>

definition byte_at :: "byte list \<Rightarrow> int \<Rightarrow> panic + byte" where
  "byte_at xs i = (if 0 \<le> i \<and> i < int (length xs) then Inr (xs ! nat i) else Inl IndexOutOfRange)"

text \<open>\<open>xs[i:]\<close>: panics outside \<open>0 \<le> i \<le> len(xs)\<close>.\<close>

definition slice_from :: "byte list \<Rightarrow> int \<Rightarrow> panic + byte list" where
  "slice_from xs i = (if 0 \<le> i \<and> i \<le> int (length xs) then Inr (drop (nat i) xs) else Inl IndexOutOfRange)"

text \<open>Sequencing of steps that may panic: the first panic is the result.\<close>

definition bindE :: "panic + 'a \<Rightarrow> ('a \<Rightarrow> panic + 'b) \<Rightarrow> panic + 'b" where
  "bindE m f = (case m of Inl e \<Rightarrow> Inl e | Inr x \<Rightarrow> f x)"

lemma bindE_cong [fundef_cong]:
  "m = m' \<Longrightarrow> (\<And>x. m' = Inr x \<Longrightarrow> f x = f' x) \<Longrightarrow> bindE m f = bindE m' f'"
  by (cases m') (simp_all add: bindE_def)

lemma bindE_simps [simp]:
  "bindE (Inl e) f = Inl e"
  "bindE (Inr x) f = f x"
  by (simp_all add: bindE_def)

text \<open>
  \<open>int(f)\<close> on a \<open>float64\<close>: truncation towards zero. The float64 arithmetic of
  \<open>extractJstTime\<close> is carried out on exact reals: its operands are a 16-bit
  integer and the constants of the source, and for every 16-bit date the exact quotients
  stay further than \<open>10\<^sup>-\<^sup>6\<close> from an integer, too far for double rounding to change
  a truncation.
\<close>

definition goInt :: "real \<Rightarrow> int" where
  "goInt x = (if x < 0 then - \<lfloor>- x\<rfloor> else \<lfloor>x\<rfloor>)"

subsection \<open>State\<close>

record AnalyzerState =
  pmtPids :: "(int \<times> bool) list option"
  pcrPid :: int
  captionPid :: int
  currentTimestamp :: int
  clockOffset :: int
  previousSubtitle :: string
  previousIsBlank :: bool
  previousTimestamp :: int
  preludePrinted :: bool

text \<open>
  \<open>pmtPids\<close> is a Go \<open>map[int]bool\<close>: \<open>None\<close> is the nil map, \<open>Some al\<close> a map with the
  entries of the association list \<open>al\<close> (keys distinct, kept so by \<open>AList.update\<close>).

  What the program writes. A \<open>Dialogue\<close> item stands for the line printed by the
  \<open>fmt.Printf\<close> of \<open>dumpCaption\<close> and carries the values the line is rendered from:
  \<open>prevTime\<close>, \<open>prevCenti\<close>, \<open>curTime\<close>, \<open>curCenti\<close> and the text (hours, minutes
  and seconds are those of \<open>time.Unix(prevTime, 0)\<close> and \<open>time.Unix(curTime, 0)\<close> in
  the time zone of the process).
\<close>

datatype stdout_item = Println string | Dialogue int int int int string

datatype stderr_item = FoundPids "(int \<times> bool) list" | CaptionPidFound int int

record Process = AnalyzerState +
  stdout :: "stdout_item list"
  stderr :: "stderr_item list"

text \<open>\<open>len(m)\<close> and \<open>m != nil && m[pid]\<close> on the map.\<close>

definition map_len :: "(int \<times> bool) list option \<Rightarrow> nat" where
  "map_len m = (case m of None \<Rightarrow> 0 | Some al \<Rightarrow> length al)"

definition map_has :: "(int \<times> bool) list option \<Rightarrow> int \<Rightarrow> bool" where
  "map_has m pid = (case m of None \<Rightarrow> False | Some al \<Rightarrow> map_of al pid = Some True)"

subsection \<open>The presentation clock\<close>

definition K :: int where
  "K = 27000000"

definition centitime :: "int \<Rightarrow> int" where
  "centitime clock = clock sdiv (K sdiv 100)"

definition extractPcr :: "byte list \<Rightarrow> panic + int" where
  "extractPcr payload =
     bindE (byte_at payload 1) (\<lambda>b1.
     bindE (byte_at payload 2) (\<lambda>b2.
     bindE (byte_at payload 3) (\<lambda>b3.
     bindE (byte_at payload 4) (\<lambda>b4.
     bindE (byte_at payload 5) (\<lambda>b5.
     bindE (byte_at payload 6) (\<lambda>b6.
       let pcr_base = push_bit 25 (uint b1) OR push_bit 17 (uint b2) OR push_bit 9 (uint b3)
                        OR push_bit 1 (uint b4) OR drop_bit 7 (uint (b5 AND 0x80));
           pcr_ext = uint (b5 AND 0x01) OR uint b6
       in Inr (pcr_base * 300 + pcr_ext)))))))"

subsection \<open>Program association table and program map table\<close>

lemma uint_byte_gt_neg: "- 2 < uint (x :: byte)"
  using uint_ge_0 [of x] by linarith

lemma be16_gt_neg: "- (push_bit 8 (uint (a :: byte)) OR uint (b :: byte)) < 5"
proof -
  have "0 \<le> push_bit 8 (uint a) OR uint b"
    by (simp add: or_nonnegative_int_iff)
  then show ?thesis by linarith
qed

text \<open>The loop of \<open>extractPmtPids\<close>, with \<open>index\<close> and \<open>pids\<close> as loop state.\<close>

function extractPmtPids_loop :: "byte list \<Rightarrow> int \<Rightarrow> int \<Rightarrow> (int \<times> bool) list \<Rightarrow> panic + (int \<times> bool) list" where
  "extractPmtPids_loop payload section_length index pids =
     (if index < 3 + section_length - 4 then
        bindE (byte_at payload (index + 0)) (\<lambda>n0.
        bindE (byte_at payload (index + 1)) (\<lambda>n1.
          let program_number = push_bit 8 (uint n0) OR uint n1 in
          if program_number \<noteq> 0 then
            bindE (byte_at payload (index + 2)) (\<lambda>m2.
            bindE (byte_at payload (index + 3)) (\<lambda>m3.
              let program_map_PID = push_bit 8 (uint (m2 AND 0x1F)) OR uint m3 in
              extractPmtPids_loop payload section_length (index + 4)
                (AList.update program_map_PID True pids)))
          else extractPmtPids_loop payload section_length (index + 4) pids))
      else Inr pids)"
  by pat_completeness auto
termination
  by (relation "measure (\<lambda>(payload, section_length, index, pids). nat (3 + section_length - 4 - index))") auto

definition extractPmtPids :: "byte list \<Rightarrow> panic + (int \<times> bool) list" where
  "extractPmtPids payload =
     bindE (byte_at payload 0) (\<lambda>table_id.
       if table_id \<noteq> 0x00 then Inr []
       else
         bindE (byte_at payload 1) (\<lambda>s1.
         bindE (byte_at payload 2) (\<lambda>s2.
           let section_length = push_bit 8 (uint (s1 AND 0x0F)) OR uint s2 in
           extractPmtPids_loop payload section_length 8 [])))"

definition extractPcrPid :: "byte list \<Rightarrow> panic + int" where
  "extractPcrPid payload =
     bindE (byte_at payload 8) (\<lambda>p8.
     bindE (byte_at payload 9) (\<lambda>p9.
       Inr (push_bit 8 (uint (p8 AND 0x1f)) OR uint p9)))"

text \<open>
  The inner loop of \<open>extractCaptionPid\<close> over the descriptors of one elementary
  stream, up to \<open>limit = index + ES_info_length\<close>: \<open>True\<close> when it reaches the
  \<open>return elementary_PID\<close>, \<open>False\<close> when it runs to its end.
\<close>

function extractCaptionPid_descriptors :: "byte list \<Rightarrow> int \<Rightarrow> int \<Rightarrow> panic + bool" where
  "extractCaptionPid_descriptors payload limit subIndex =
     (if subIndex < limit then
        bindE (byte_at payload (subIndex + 0)) (\<lambda>descriptor_tag.
        bindE (byte_at payload (subIndex + 1)) (\<lambda>d1.
          let descriptor_length = uint d1 in
          if descriptor_tag = 0x52 then
            bindE (byte_at payload (subIndex + 2)) (\<lambda>component_tag.
              if component_tag = 0x87 then Inr True
              else extractCaptionPid_descriptors payload limit (subIndex + (2 + descriptor_length)))
          else extractCaptionPid_descriptors payload limit (subIndex + (2 + descriptor_length))))
      else Inr False)"
  by pat_completeness auto
termination
  by (relation "measure (\<lambda>(payload, limit, subIndex). nat (limit - subIndex))")
    (auto simp: uint_byte_gt_neg)

text \<open>The outer loop of \<open>extractCaptionPid\<close> over the elementary streams.\<close>

function extractCaptionPid_loop :: "byte list \<Rightarrow> int \<Rightarrow> int \<Rightarrow> panic + int" where
  "extractCaptionPid_loop payload section_length index =
     (if index < 3 + section_length - 4 then
        bindE (byte_at payload (index + 0)) (\<lambda>stream_type.
        bindE (byte_at payload (index + 3)) (\<lambda>e3.
        bindE (byte_at payload (index + 4)) (\<lambda>e4.
          let ES_info_length = push_bit 8 (uint (e3 AND 0xF)) OR uint e4 in
          if stream_type = 0x06 then
            bindE (byte_at payload (index + 1)) (\<lambda>p1.
            bindE (byte_at payload (index + 2)) (\<lambda>p2.
              let elementary_PID = push_bit 8 (uint (p1 AND 0x1F)) OR uint p2 in
              bindE (extractCaptionPid_descriptors payload (index + ES_info_length) (index + 5)) (\<lambda>found.
                if found then Inr elementary_PID
                else extractCaptionPid_loop payload section_length (index + (5 + ES_info_length)))))
          else extractCaptionPid_loop payload section_length (index + (5 + ES_info_length)))))
      else Inr (- 1))"
  by pat_completeness auto
termination
  by (relation "measure (\<lambda>(payload, section_length, index). nat (3 + section_length - 4 - index))")
    (auto simp: be16_gt_neg)

definition extractCaptionPid :: "byte list \<Rightarrow> panic + int" where
  "extractCaptionPid payload =
     bindE (byte_at payload 0) (\<lambda>table_id.
       if table_id \<noteq> 0x02 then Inr (- 1)
       else
         bindE (byte_at payload 1) (\<lambda>s1.
         bindE (byte_at payload 2) (\<lambda>s2.
           let section_length = push_bit 8 (uint (s1 AND 0x0F)) OR uint s2 in
           if section_length \<ge> int (length payload) then Inr (- 1)
           else
             bindE (byte_at payload 10) (\<lambda>i10.
             bindE (byte_at payload 11) (\<lambda>i11.
               let program_info_length = push_bit 8 (uint (i10 AND 0x0F)) OR uint i11;
                   index = 12 + program_info_length
               in extractCaptionPid_loop payload section_length index)))))"

subsection \<open>Time offset table\<close>

definition decodeBcd :: "byte \<Rightarrow> int" where
  "decodeBcd n = drop_bit 4 (uint n) * 10 + uint (n AND 0x0f)"

text \<open>
  \<open>extractJstTime\<close> renders the six fields with
  \<open>fmt.Sprintf("%d-%02d-%02dT%02d:%02d:%02d+09:00", ...)\<close>, parses the string with
  \<open>time.Parse(time.RFC3339, str)\<close> and returns \<open>t.Unix()\<close>. \<open>sprintf_parse_unix\<close> is
  that composition, after the Go standard library: the parse succeeds exactly when
  the year is rendered with four digits, month and day with two and name a day of the
  proleptic Gregorian calendar, and hour, minute and second are below 24, 60 and 60;
  the instant is the civil time at UTC+9.
\<close>

definition isLeap :: "int \<Rightarrow> bool" where
  "isLeap year = (year mod 4 = 0 \<and> (year mod 100 \<noteq> 0 \<or> year mod 400 = 0))"

definition daysIn :: "int \<Rightarrow> int \<Rightarrow> int" where
  "daysIn month year =
     (if month = 2 then (if isLeap year then 29 else 28)
      else if month = 4 \<or> month = 6 \<or> month = 9 \<or> month = 11 then 30
      else 31)"

definition daysBefore :: "int \<Rightarrow> int" where
  "daysBefore month = [0, 31, 59, 90, 120, 151, 181, 212, 243, 273, 304, 334] ! nat (month - 1)"

definition daysSinceEpoch :: "int \<Rightarrow> int \<Rightarrow> int \<Rightarrow> int" where
  "daysSinceEpoch year month day =
     365 * (year - 1970)
     + ((year - 1) div 4 - (year - 1) div 100 + (year - 1) div 400) - 477
     + daysBefore month + (if isLeap year \<and> month > 2 then 1 else 0)
     + (day - 1)"

definition sprintf_parse_unix :: "int \<Rightarrow> int \<Rightarrow> int \<Rightarrow> int \<Rightarrow> int \<Rightarrow> int \<Rightarrow> panic + int" where
  "sprintf_parse_unix year month day hour minute second =
     (if 1000 \<le> year \<and> year \<le> 9999 \<and> 1 \<le> month \<and> month \<le> 12
         \<and> 1 \<le> day \<and> day \<le> daysIn month year
         \<and> 0 \<le> hour \<and> hour < 24 \<and> 0 \<le> minute \<and> minute < 60 \<and> 0 \<le> second \<and> second < 60
      then Inr (daysSinceEpoch year month day * 86400 + hour * 3600 + minute * 60 + second - 9 * 3600)
      else Inl TimeParseError)"

definition extractJstTime :: "byte list \<Rightarrow> panic + int" where
  "extractJstTime payload =
     bindE (byte_at payload 0) (\<lambda>marker.
       if marker \<noteq> 0x73 then Inr 0
       else
         bindE (byte_at payload 3) (\<lambda>j3.
         bindE (byte_at payload 4) (\<lambda>j4.
           let MJD = push_bit 8 (uint j3) OR uint j4;
               y = goInt ((of_int MJD - 15078.2) / 365.25);
               m = goInt ((of_int MJD - 14956.1 - of_int (goInt (of_int y * 365.25))) / 30.6001);
               k = (if m = 14 \<or> m = 15 then 1 else 0);
               year = y + k + 1900;
               month = m - 2 - k * 12;
               day = MJD - 14956 - goInt (of_int y * 365.25) - goInt (of_int m * 30.6001)
           in
             bindE (byte_at payload 5) (\<lambda>t5.
             bindE (byte_at payload 6) (\<lambda>t6.
             bindE (byte_at payload 7) (\<lambda>t7.
               sprintf_parse_unix year month day (decodeBcd t5) (decodeBcd t6) (decodeBcd t7)))))))"

subsection \<open>Captions\<close>

fun isBlank :: "string \<Rightarrow> bool" where
  "isBlank [] = True"
| "isBlank (c # str) = (if c \<noteq> CHR '' '' then False else isBlank str)"

definition printPrelude :: "stdout_item list" where
  "printPrelude =
     [Println ''[Script Info]'',
      Println ''ScriptType: v4.00+'',
      Println ''Collisions: Normal'',
      Println ''ScaledBorderAndShadow: yes'',
      Println ''Timer: 100.0000'',
      Println (CHR 0x0A # ''[Events]'')]"

text \<open>
  The caption-text decoder. The source's \<open>decodeCprofile\<close> is a stub; the functions
  that call it take the decoder as the parameter \<open>dec\<close>, and \<open>main\<close> runs them with
  the stub.
\<close>

type_synonym decoder = "byte list \<Rightarrow> int \<Rightarrow> string"

definition decodeCprofile :: decoder where
  "decodeCprofile str len = ''dummy''"

text \<open>
  The body of \<open>if data_unit_parameter == 0x20\<close> in the loop of \<open>dumpCaption\<close>: one
  displayable caption string, in the data unit that starts at \<open>q\<close>.
\<close>

definition dumpCaption_unit :: "decoder \<Rightarrow> byte list \<Rightarrow> int \<Rightarrow> Process \<Rightarrow> Process \<times> panic option" where
  "dumpCaption_unit dec q data_unit_size state =
     (let state1 =
        (if length (previousSubtitle state) \<noteq> 0
            \<and> \<not> (isBlank (previousSubtitle state) \<and> previousIsBlank state)
         then
           let prevTimeCenti = centitime (previousTimestamp state) + clockOffset state;
               curTimeCenti = centitime (currentTimestamp state) + clockOffset state;
               prevTime = prevTimeCenti sdiv 100;
               curTime = curTimeCenti sdiv 100;
               prevCenti = prevTimeCenti smod 100;
               curCenti = curTimeCenti smod 100;
               state0 = (if \<not> preludePrinted state
                         then state\<lparr>preludePrinted := True, stdout := stdout state @ printPrelude\<rparr>
                         else state)
           in state0\<lparr>stdout := stdout state0
                        @ [Dialogue prevTime prevCenti curTime curCenti (previousSubtitle state0)]\<rparr>
         else state);
          state2 = state1\<lparr>previousIsBlank := isBlank (previousSubtitle state1)\<rparr>
      in case slice_from q 8 of
           Inl e \<Rightarrow> (state2, Some e)
         | Inr str \<Rightarrow>
             (state2\<lparr>previousSubtitle := dec str data_unit_size,
                     previousTimestamp := currentTimestamp state2\<rparr>, None))"

lemma be24_gt_neg: "- 5 < push_bit 16 (uint (a :: byte)) OR push_bit 8 (uint (b :: byte)) OR uint (c :: byte)"
proof -
  have "0 \<le> push_bit 16 (uint a) OR push_bit 8 (uint b) OR uint c"
    by (simp add: or_nonnegative_int_iff)
  then show ?thesis by linarith
qed

function dumpCaption_loop :: "decoder \<Rightarrow> byte list \<Rightarrow> int \<Rightarrow> int \<Rightarrow> Process \<Rightarrow> Process \<times> panic option" where
  "dumpCaption_loop dec p data_unit_loop_length index state =
     (if index < data_unit_loop_length then
        (case bindE (slice_from p index) (\<lambda>q.
                bindE (byte_at q 4) (\<lambda>data_unit_parameter.
                bindE (byte_at q 5) (\<lambda>u5.
                bindE (byte_at q 6) (\<lambda>u6.
                bindE (byte_at q 7) (\<lambda>u7.
                  Inr (q, data_unit_parameter, push_bit 16 (uint u5) OR push_bit 8 (uint u6) OR uint u7)))))) of
           Inl e \<Rightarrow> (state, Some e)
         | Inr (q, data_unit_parameter, data_unit_size) \<Rightarrow>
             if data_unit_parameter = 0x20 then
               (case dumpCaption_unit dec q data_unit_size state of
                  (state', Some e) \<Rightarrow> (state', Some e)
                | (state', None) \<Rightarrow>
                    dumpCaption_loop dec p data_unit_loop_length (index + (5 + data_unit_size)) state')
             else dumpCaption_loop dec p data_unit_loop_length (index + (5 + data_unit_size)) state)
      else (state, None))"
  by pat_completeness auto
termination
  by (relation "measure (\<lambda>(dec, p, data_unit_loop_length, index, state). nat (data_unit_loop_length - index))")
    (auto simp: be24_gt_neg bindE_def split: sum.splits)

definition dumpCaption :: "decoder \<Rightarrow> byte list \<Rightarrow> Process \<Rightarrow> Process \<times> panic option" where
  "dumpCaption dec payload state =
     (case
        bindE (byte_at payload 8) (\<lambda>PES_header_data_length.
        bindE (byte_at payload (uint (11 + PES_header_data_length))) (\<lambda>h.
          let PES_data_packet_header_length = h AND 0x0F in
          bindE (slice_from payload (uint (12 + PES_header_data_length + PES_data_packet_header_length))) (\<lambda>p.
          bindE (byte_at p 0) (\<lambda>g.
            let data_group_id = drop_bit 2 (g AND 0xFC) in
            bindE (if data_group_id = 0x00 \<or> data_group_id = 0x20
                   then bindE (byte_at p 6) (\<lambda>num_languages. slice_from p (uint (7 + num_languages * 5)))
                   else slice_from p 6) (\<lambda>p.
            bindE (byte_at p 0) (\<lambda>l0.
            bindE (byte_at p 1) (\<lambda>l1.
            bindE (byte_at p 2) (\<lambda>l2.
              Inr (p, push_bit 16 (uint l0) OR push_bit 8 (uint l1) OR uint l2))))))))) of
        Inl e \<Rightarrow> (state, Some e)
      | Inr (p, data_unit_loop_length) \<Rightarrow> dumpCaption_loop dec p data_unit_loop_length 0 state)"

subsection \<open>Packets\<close>

definition assertSyncByte :: "byte list \<Rightarrow> panic + unit" where
  "assertSyncByte packet =
     bindE (byte_at packet 0) (\<lambda>sync_byte.
       if sync_byte \<noteq> 0x47 then Inl SyncByteFailed else Inr ())"

text \<open>
  \<open>analyzePacket\<close> is embedded in three parts: the block \<open>if hasAdaptation\<close>, which
  may update the clock and hands on the rest \<open>p\<close> of the packet; the block
  \<open>if hasPayload\<close>, which dispatches on the PID; and the function itself, which
  checks the sync byte, decodes the header and runs the two blocks.
\<close>

definition analyzePacket_adaptation :: "int \<Rightarrow> byte list \<Rightarrow> Process \<Rightarrow> Process \<times> (panic + byte list)" where
  "analyzePacket_adaptation pid p state =
     (case byte_at p 0 of
        Inl e \<Rightarrow> (state, Inl e)
      | Inr adaptation_field_length \<Rightarrow>
     (case slice_from p 1 of
        Inl e \<Rightarrow> (state, Inl e)
      | Inr p \<Rightarrow>
     (case byte_at p 0 of
        Inl e \<Rightarrow> (state, Inl e)
      | Inr f \<Rightarrow>
          let pcr_flag = (f AND 0x10 \<noteq> 0) in
          if pcr_flag \<and> pid = pcrPid state then
            (case extractPcr p of
               Inl e \<Rightarrow> (state, Inl e)
             | Inr clock \<Rightarrow>
                 (state\<lparr>currentTimestamp := clock\<rparr>, slice_from p (uint adaptation_field_length)))
          else (state, slice_from p (uint adaptation_field_length)))))"

definition analyzePacket_payload :: "decoder \<Rightarrow> bool \<Rightarrow> int \<Rightarrow> byte list \<Rightarrow> Process \<Rightarrow> Process \<times> panic option" where
  "analyzePacket_payload dec payload_unit_start_indicator pid p state =
     (if pid = 0 then
        (if map_len (pmtPids state) = 0 then
           (case bindE (slice_from p 1) extractPmtPids of
              Inl e \<Rightarrow> (state, Some e)
            | Inr pids \<Rightarrow>
                (state\<lparr>pmtPids := Some pids, stderr := stderr state @ [FoundPids pids]\<rparr>, None))
         else (state, None))
      else if map_has (pmtPids state) pid then
        (if captionPid state = - 1 \<and> payload_unit_start_indicator then
           (case bindE (slice_from p 1) extractPcrPid of
              Inl e \<Rightarrow> (state, Some e)
            | Inr pcrPid' \<Rightarrow>
           (case bindE (slice_from p 1) extractCaptionPid of
              Inl e \<Rightarrow> (state, Some e)
            | Inr captionPid' \<Rightarrow>
                if captionPid' \<noteq> - 1 then
                  (state\<lparr>pcrPid := pcrPid', captionPid := captionPid',
                         stderr := stderr state @ [CaptionPidFound captionPid' pcrPid']\<rparr>, None)
                else (state, None)))
         else (state, None))
      else if pid = 0x0014 then
        (case bindE (slice_from p 1) extractJstTime of
           Inl e \<Rightarrow> (state, Some e)
         | Inr t \<Rightarrow>
             if t \<noteq> 0 then
               (state\<lparr>clockOffset := t * 100 - centitime (currentTimestamp state)\<rparr>, None)
             else (state, None))
      else if pid = captionPid state then
        (if payload_unit_start_indicator then dumpCaption dec p state else (state, None))
      else (state, None))"

definition analyzePacket :: "decoder \<Rightarrow> byte list \<Rightarrow> Process \<Rightarrow> Process \<times> panic option" where
  "analyzePacket dec packet state =
     (case assertSyncByte packet of
        Inl e \<Rightarrow> (state, Some e)
      | Inr _ \<Rightarrow>
     (case bindE (byte_at packet 1) (\<lambda>h1.
           bindE (byte_at packet 2) (\<lambda>h2.
           bindE (byte_at packet 3) (\<lambda>h3.
           bindE (slice_from packet 4) (\<lambda>p. Inr (h1, h2, h3, p))))) of
        Inl e \<Rightarrow> (state, Some e)
      | Inr (h1, h2, h3, p) \<Rightarrow>
          let payload_unit_start_indicator = (h1 AND 0x40 \<noteq> 0);
              pid = push_bit 8 (uint (h1 AND 0x1f)) OR uint h2;
              hasAdaptation = (h3 AND 0x20 \<noteq> 0);
              hasPayload = (h3 AND 0x10 \<noteq> 0)
          in
            (case (if hasAdaptation then analyzePacket_adaptation pid p state else (state, Inr p)) of
               (state', Inl e) \<Rightarrow> (state', Some e)
             | (state', Inr p') \<Rightarrow>
                 if hasPayload then analyzePacket_payload dec payload_unit_start_indicator pid p' state'
                 else (state', None))))"

subsection \<open>The main loop\<close>

text \<open>
  \<open>main\<close> allocates the state, sets both PIDs to \<open>-1\<close> and calls \<open>analyzePacket\<close> on
  each 188-byte buffer read from the file until the input ends or a call panics.
  \<open>run\<close> is that loop over the list of buffers.
\<close>

definition initial_state :: Process where
  "initial_state =
     \<lparr>pmtPids = None, pcrPid = - 1, captionPid = - 1, currentTimestamp = 0, clockOffset = 0,
      previousSubtitle = [], previousIsBlank = False, previousTimestamp = 0,
      preludePrinted = False, stdout = [], stderr = []\<rparr>"

fun run :: "decoder \<Rightarrow> byte list list \<Rightarrow> Process \<Rightarrow> Process \<times> panic option" where
  "run dec [] state = (state, None)"
| "run dec (packet # packets) state =
     (case analyzePacket dec packet state of
        (state', Some e) \<Rightarrow> (state', Some e)
      | (state', None) \<Rightarrow> run dec packets state')"

definition main :: "byte list list \<Rightarrow> Process \<times> panic option" where
  "main packets = run decodeCprofile packets initial_state"

section \<open>Properties\<close>

subsection \<open>Centitime\<close>

text \<open>
  C8. Centitime conversion divides the 27 MHz presentation clock by 270000, and a
  clock value of exactly 27000000 ticks is exactly 100 centitime units.
\<close>

theorem centitime_one_second:
  "centitime clock = clock sdiv 270000 \<and> centitime 27000000 = 100"
  by (simp add: centitime_def K_def signed_divide_int_def)

end
